theory Spec2Isabelle
  imports Main "HOL-Library.AList"
begin

section \<open>JavaScript values\<close>

text \<open>
  Request bodies, payloads and results are parsed JSON. \<open>JUndefined\<close> stands for a
  property that is not there. Numbers are restricted to integers. Strings are byte
  strings (UTF-8).
\<close>

datatype json =
    JUndefined
  | JNull
  | JBool bool
  | JNum int
  | JStr string
  | JArr "json list"
  | JObj "(string \<times> json) list"

text \<open>JavaScript truthiness, as used by \<open>!x\<close>, \<open>x && y\<close> and \<open>x || y\<close>.\<close>

fun truthy :: "json \<Rightarrow> bool" where
  "truthy JUndefined = False"
| "truthy JNull = False"
| "truthy (JBool b) = b"
| "truthy (JNum n) = (n \<noteq> 0)"
| "truthy (JStr s) = (s \<noteq> [])"
| "truthy (JArr xs) = True"
| "truthy (JObj kvs) = True"

text \<open>\<open>typeof v === 'string'\<close>.\<close>

fun is_string :: "json \<Rightarrow> bool" where
  "is_string (JStr s) = True"
| "is_string v = False"

text \<open>Property access \<open>obj.key\<close> on an object: \<open>undefined\<close> when the key is missing.\<close>

definition get_prop :: "(string \<times> json) list \<Rightarrow> string \<Rightarrow> json" where
  "get_prop kvs k = (case map_of kvs k of None \<Rightarrow> JUndefined | Some v \<Rightarrow> v)"

text \<open>
  The comparison of \<open>Array.prototype.includes\<close>: primitives are equal when they have the
  same type and value; an array or object is equal only to itself, and the element of a
  stored array and a value parsed from another request body are never the same object.
\<close>

fun same_value_zero :: "json \<Rightarrow> json \<Rightarrow> bool" where
  "same_value_zero (JArr xs) v = False"
| "same_value_zero (JObj kvs) v = False"
| "same_value_zero u v = (u = v)"

definition array_includes :: "json list \<Rightarrow> json \<Rightarrow> bool" where
  "array_includes xs v = list_ex (\<lambda>x. same_value_zero x v) xs"

section \<open>Data model\<close>

text \<open>
  The evidence hash is the hex SHA-256 digest of a template string. JSON.stringify,
  Date.toISOString and the digest belong to the platform, so the hashed text is kept as
  the list of its parts and the digest as a constructor applied to it.
\<close>

datatype template_part = Text string | Stringified json | IsoString nat

datatype digest = Sha256_hex "template_part list"

text \<open>Timestamps are milliseconds since the epoch; the code stores their ISO rendering.\<close>

record receipt =
  rc_request_id :: string
  rc_status :: string
  result :: json
  reason :: json
  completed_by :: string
  completed_at :: nat
  duration_seconds :: int
  evidence_hash :: digest

record request =
  request_id :: string
  action :: string
  role :: string
  priority :: string
  timeout_seconds :: int
  fallback :: string
  agent_id :: string
  project_id :: "string option"
  metadata :: json
  payload :: "(string \<times> json) list"
  status :: string
  created_at :: nat
  expires_at :: "nat option"
  receipt :: "receipt option"

text \<open>
  The variables a timer callback closes over (\<open>requestId\<close>, \<open>fallback\<close>, \<open>action\<close>,
  \<open>payload\<close>, \<open>timeout_seconds\<close> of the creating call).
\<close>

record timer =
  t_request_id :: string
  t_action :: string
  t_fallback :: string
  t_payload :: "(string \<times> json) list"
  t_timeout_seconds :: int

text \<open>
  The store \<open>requests\<close> is a JavaScript Map: insertion ordered, one entry per key
  (\<open>map_of\<close> is \<open>get\<close>, \<open>AList.update\<close> is \<open>set\<close>). \<open>timers\<close> holds the armed
  one-shot timers.
\<close>

record state =
  requests :: "(string \<times> request) list"
  timers :: "timer list"

definition init :: state where
  "init = \<lparr>requests = [], timers = []\<rparr>"

text \<open>
  An event handed to \<open>notifySubscribers\<close>. \<open>ev_receipt\<close> is \<open>None\<close> when the event
  object has no \<open>receipt\<close> key, \<open>Some None\<close> when the key holds \<open>null\<close>.
\<close>

record event =
  ev_event :: string
  ev_receipt :: "receipt option option"

text \<open>
  Error messages. The template \<open>Result must be one of: ${options.join(', ')}\<close> is kept
  as its argument.
\<close>

datatype message = Msg string | Msg_one_of "json list"

text \<open>
  What a handler answers: an error (HTTP status, \<open>error\<close>, \<open>message\<close>), or the body of
  a success. \<open>Threw\<close> is an uncaught TypeError inside the handler.
\<close>

datatype response =
    Err nat string message
  | Created string string nat "nat option"
  | Cancelled string string
  | Resolved receipt
  | Inbox "request list" nat nat
  | Threw

section \<open>Helpers\<close>

definition VALID_ACTIONS :: "string list" where
  "VALID_ACTIONS = [''DECIDE'', ''APPROVE'', ''PROVIDE'']"

definition VALID_ROLES :: "string list" where
  "VALID_ROLES = [''owner'', ''delegate'', ''pool'']"

definition generateEvidenceHash :: "string \<Rightarrow> string \<Rightarrow> json \<Rightarrow> nat \<Rightarrow> digest" where
  "generateEvidenceHash secret requestId res completedAt =
     Sha256_hex [Text requestId, Text '':'', Stringified res, Text '':'',
                 IsoString completedAt, Text '':'', Text secret]"

definition validatePayload :: "string \<Rightarrow> (string \<times> json) list \<Rightarrow> message option" where
  \<open>validatePayload act pl =
     (if act = ''DECIDE'' then
        (if \<not> truthy (get_prop pl ''question'') \<or> \<not> is_string (get_prop pl ''question'')
         then Some (Msg ''DECIDE requires a "question" string in payload'')
         else (case get_prop pl ''options'' of
                 JArr opts \<Rightarrow>
                   if length opts < 2 \<or> length opts > 6
                   then Some (Msg ''DECIDE requires "options" array with 2-6 items'')
                   else None
               | _ \<Rightarrow> Some (Msg ''DECIDE requires "options" array with 2-6 items'')))
      else if act = ''APPROVE'' then
        (if \<not> truthy (get_prop pl ''item'') \<or> \<not> is_string (get_prop pl ''item'')
         then Some (Msg ''APPROVE requires an "item" string in payload'')
         else None)
      else if act = ''PROVIDE'' then
        (if \<not> truthy (get_prop pl ''prompt'') \<or> \<not> is_string (get_prop pl ''prompt'')
         then Some (Msg ''PROVIDE requires a "prompt" string in payload'')
         else if \<not> truthy (get_prop pl ''input_type'')
         then Some (Msg ''PROVIDE requires an "input_type" in payload'')
         else None)
      else Some (Msg (''Unknown action: '' @ act)))\<close>

text \<open>
  \<open>validateResult\<close>. For DECIDE the code calls \<open>request.payload.options.includes\<close>;
  every stored DECIDE request has an array there (\<open>validatePayload\<close>), and the call on
  anything else is modelled as the TypeError that a missing \<open>options\<close> raises.
\<close>

definition validateResult :: "request \<Rightarrow> json \<Rightarrow> unit + message option" where
  \<open>validateResult req res =
     (if action req = ''DECIDE'' then
        (case get_prop (payload req) ''options'' of
           JArr opts \<Rightarrow>
             if \<not> array_includes opts res then Inr (Some (Msg_one_of opts)) else Inr None
         | _ \<Rightarrow> Inl ())
      else if action req = ''APPROVE'' then
        (if \<not> array_includes [JStr ''approved'', JStr ''rejected''] res
         then Inr (Some (Msg ''Result must be "approved" or "rejected"''))
         else Inr None)
      else if action req = ''PROVIDE'' then
        (if res = JNull \<or> res = JUndefined \<or> res = JStr ''''
         then Inr (Some (Msg ''PROVIDE result cannot be empty''))
         else Inr None)
      else Inr None)\<close>

section \<open>Agent routes\<close>

text \<open>
  The handlers are modelled behind the authentication middleware. Each one returns the
  new state, the response and the events handed to \<open>notifySubscribers\<close>. A handler runs
  to completion before any other handler or timer callback starts.
\<close>

text \<open>
  The body of \<open>POST /hxp/v1/requests\<close>. A field is \<open>None\<close> when the body does not
  carry it, and the destructuring default applies.
\<close>

record create_body =
  b_action :: string
  b_role :: "string option"
  b_priority :: "string option"
  b_timeout_seconds :: "int option"
  b_fallback :: "string option"
  b_agent_id :: "string option"
  b_project_id :: "string option"
  b_metadata :: "json option"
  b_payload :: "(string \<times> json) list option"

definition or_default :: "'a option \<Rightarrow> 'a \<Rightarrow> 'a" where
  "or_default v d = (case v of None \<Rightarrow> d | Some x \<Rightarrow> x)"

text \<open>A query or body string used as a condition: absent and empty are falsy.\<close>

definition given :: "string option \<Rightarrow> bool" where
  "given v = (case v of None \<Rightarrow> False | Some x \<Rightarrow> x \<noteq> [])"

text \<open>
  \<open>POST /hxp/v1/requests\<close>. \<open>uid\<close> is the twelve characters taken from the fresh UUID,
  \<open>now\<close> and \<open>now2\<close> are the two clock reads (\<open>new Date()\<close>, \<open>Date.now()\<close>).
\<close>

definition create :: "state \<Rightarrow> create_body \<Rightarrow> string \<Rightarrow> nat \<Rightarrow> nat \<Rightarrow>
    state \<times> response \<times> (string \<times> event) list" where
  "create s body uid now now2 =
     (let act = b_action body;
          rl = or_default (b_role body) ''owner'';
          prio = or_default (b_priority body) ''normal'';
          tmo = or_default (b_timeout_seconds body) 0;
          fb = or_default (b_fallback body) ''pause'';
          pl = or_default (b_payload body) []
      in if act \<notin> set VALID_ACTIONS then
           (s, Err 400 ''invalid_action''
                 (Msg ''Action must be one of: DECIDE, APPROVE, PROVIDE''), [])
         else if rl \<notin> set VALID_ROLES then
           (s, Err 400 ''invalid_role'' (Msg ''Role must be one of: owner, delegate, pool''), [])
         else (case validatePayload act pl of
             Some payloadError \<Rightarrow> (s, Err 400 ''invalid_payload'' payloadError, [])
           | None \<Rightarrow>
               (let requestId = ''hxp_'' @ uid;
                    expiresAt = (if tmo > 0 then Some (nat (int now2 + tmo * 1000)) else None);
                    req = \<lparr>request_id = requestId, action = act, role = rl, priority = prio,
                           timeout_seconds = tmo, fallback = fb,
                           agent_id = (if given (b_agent_id body)
                                       then the (b_agent_id body) else ''unknown''),
                           project_id = (if given (b_project_id body)
                                         then b_project_id body else None),
                           metadata = or_default (b_metadata body) (JObj []),
                           payload = pl, status = ''pending'', created_at = now,
                           expires_at = expiresAt, receipt = None\<rparr>;
                    tm = \<lparr>t_request_id = requestId, t_action = act, t_fallback = fb,
                          t_payload = pl, t_timeout_seconds = tmo\<rparr>
                in (\<lparr>requests = AList.update requestId req (requests s),
                     timers = (if tmo > 0 then timers s @ [tm] else timers s)\<rparr>,
                    Created requestId ''pending'' now expiresAt, []))))"

text \<open>
  The reason of the synthetic receipt, \<open>Timeout - default option applied\<close> with an em
  dash (three bytes in UTF-8).
\<close>

definition timeout_reason :: string where
  "timeout_reason =
     ''Timeout '' @ [CHR 0xE2, CHR 0x80, CHR 0x94] @ '' default option applied''"

text \<open>
  The \<open>setTimeout\<close> callback armed by \<open>create\<close>. \<open>now\<close> and \<open>now2\<close> are its two clock
  reads: \<open>completed_at\<close> and the timestamp passed to \<open>generateEvidenceHash\<close> each come
  from their own \<open>new Date()\<close>.
\<close>

definition timeout_fire :: "string \<Rightarrow> state \<Rightarrow> timer \<Rightarrow> nat \<Rightarrow> nat \<Rightarrow>
    state \<times> (string \<times> event) list" where
  "timeout_fire secret s tm now now2 =
     (let requestId = t_request_id tm in
      case map_of (requests s) requestId of
        None \<Rightarrow> (s, [])
      | Some req \<Rightarrow>
          if status req = ''pending'' then
            (let req1 = req\<lparr>status := ''expired''\<rparr>;
                 req2 = (if t_fallback tm = ''default'' \<and> t_action tm = ''DECIDE'' \<and>
                            truthy (get_prop (t_payload tm) ''default_option'')
                         then req1\<lparr>status := ''completed'',
                                  receipt := Some
                                    \<lparr>rc_request_id = requestId, rc_status = ''completed'',
                                     result = get_prop (t_payload tm) ''default_option'',
                                     reason = JStr timeout_reason,
                                     completed_by = ''system'',
                                     completed_at = now,
                                     duration_seconds = t_timeout_seconds tm,
                                     evidence_hash = generateEvidenceHash secret requestId
                                       (get_prop (t_payload tm) ''default_option'') now2\<rparr>\<rparr>
                         else req1)
             in (s\<lparr>requests := AList.update requestId req2 (requests s)\<rparr>,
                 [(requestId, \<lparr>ev_event = status req2, ev_receipt = Some (receipt req2)\<rparr>)]))
          else (s, []))"

text \<open>\<open>POST /hxp/v1/requests/:id/cancel\<close>.\<close>

definition cancel :: "state \<Rightarrow> string \<Rightarrow> state \<times> response \<times> (string \<times> event) list" where
  "cancel s rid =
     (case map_of (requests s) rid of
        None \<Rightarrow> (s, Err 404 ''not_found'' (Msg ''Request not found''), [])
      | Some req \<Rightarrow>
          if status req \<noteq> ''pending'' \<and> status req \<noteq> ''assigned'' then
            (s, Err 409 ''conflict'' (Msg ''Request already resolved''), [])
          else
            (s\<lparr>requests := AList.update rid (req\<lparr>status := ''cancelled''\<rparr>) (requests s)\<rparr>,
             Cancelled rid ''cancelled'',
             [(rid, \<lparr>ev_event = ''cancelled'', ev_receipt = None\<rparr>)]))"

section \<open>Human routes\<close>

text \<open>The query of \<open>GET /hxp/v1/inbox\<close>.\<close>

record inbox_query =
  q_status :: "string option"
  q_priority :: "string option"
  q_action :: "string option"

text \<open>
  \<open>Array.prototype.sort\<close> with a comparator: a stable sort, here by insertion from the
  right.
\<close>

fun insert_by :: "('a \<Rightarrow> 'a \<Rightarrow> int) \<Rightarrow> 'a \<Rightarrow> 'a list \<Rightarrow> 'a list" where
  "insert_by cmp x [] = [x]"
| "insert_by cmp x (y # ys) =
     (if cmp x y \<le> 0 then x # y # ys else y # insert_by cmp x ys)"

definition sort_by :: "('a \<Rightarrow> 'a \<Rightarrow> int) \<Rightarrow> 'a list \<Rightarrow> 'a list" where
  "sort_by cmp xs = foldr (insert_by cmp) xs []"

text \<open>
  \<open>priorityOrder[p] || 2\<close>: the rank 0 of \<open>critical\<close> is falsy and becomes 2, as does
  a priority that is not in the table.
\<close>

definition priorityOrder :: "string \<Rightarrow> int option" where
  "priorityOrder p =
     (if p = ''critical'' then Some 0
      else if p = ''high'' then Some 1
      else if p = ''normal'' then Some 2
      else if p = ''low'' then Some 3
      else None)"

definition priority_rank :: "string \<Rightarrow> int" where
  "priority_rank p = (case priorityOrder p of None \<Rightarrow> 2 | Some n \<Rightarrow> if n \<noteq> 0 then n else 2)"

definition inbox_compare :: "request \<Rightarrow> request \<Rightarrow> int" where
  "inbox_compare a b =
     (let pDiff = priority_rank (priority a) - priority_rank (priority b)
      in if pDiff \<noteq> 0 then pDiff else int (created_at b) - int (created_at a))"

text \<open>\<open>GET /hxp/v1/inbox\<close>. The response carries the requests, \<open>total\<close> and \<open>unresolved\<close>.\<close>

definition inbox :: "state \<Rightarrow> inbox_query \<Rightarrow> response" where
  "inbox s q =
     (let st = or_default (q_status q) ''pending'';
          results0 = filter (\<lambda>r. status r = st \<or> status r = ''assigned'')
                       (map snd (requests s));
          results1 = (if given (q_priority q)
                      then filter (\<lambda>r. priority r = the (q_priority q)) results0
                      else results0);
          results2 = (if given (q_action q)
                      then filter (\<lambda>r. action r = the (q_action q)) results1
                      else results1);
          results = sort_by inbox_compare results2
      in Inbox results (length results)
           (length (filter (\<lambda>r. status r = ''pending'') results)))"

text \<open>
  \<open>POST /hxp/v1/requests/:id/resolve\<close>. \<open>res\<close> and \<open>rsn\<close> are \<open>result\<close> and
  \<open>reason\<close> of the body, \<open>humanId\<close> the identity set by the middleware, \<open>now\<close> the clock
  read \<open>completedAt\<close>.
\<close>

definition resolve :: "string \<Rightarrow> state \<Rightarrow> string \<Rightarrow> json \<Rightarrow> json \<Rightarrow> string \<Rightarrow> nat \<Rightarrow>
    state \<times> response \<times> (string \<times> event) list" where
  "resolve secret s rid res rsn humanId now =
     (case map_of (requests s) rid of
        None \<Rightarrow> (s, Err 404 ''not_found'' (Msg ''Request not found''), [])
      | Some req \<Rightarrow>
          if status req = ''completed'' \<or> status req = ''cancelled'' then
            (s, Err 409 ''conflict'' (Msg ''Request already resolved''), [])
          else if status req = ''expired'' then
            (s, Err 409 ''expired'' (Msg ''Request has expired''), [])
          else if res = JUndefined \<or> res = JNull then
            (s, Err 400 ''missing_result'' (Msg ''Result is required''), [])
          else (case validateResult req res of
              Inl _ \<Rightarrow> (s, Threw, [])
            | Inr (Some resultError) \<Rightarrow> (s, Err 422 ''invalid_result'' resultError, [])
            | Inr None \<Rightarrow>
                if action req = ''APPROVE'' \<and> res = JStr ''rejected'' \<and>
                   truthy (get_prop (payload req) ''reject_requires_reason'') \<and> \<not> truthy rsn
                then (s, Err 422 ''reason_required''
                           (Msg ''A reason is required when rejecting this request''), [])
                else
                  (let completedAt = now;
                       durationSeconds = (int completedAt - int (created_at req) + 500) div 1000;
                       rc = \<lparr>rc_request_id = rid, rc_status = ''completed'', result = res,
                             reason = (if truthy rsn then rsn else JNull),
                             completed_by = humanId, completed_at = completedAt,
                             duration_seconds = durationSeconds,
                             evidence_hash = generateEvidenceHash secret rid res completedAt\<rparr>
                   in (s\<lparr>requests := AList.update rid
                                        (req\<lparr>status := ''completed'', receipt := Some rc\<rparr>)
                                        (requests s)\<rparr>,
                       Resolved rc,
                       [(rid, \<lparr>ev_event = ''completed'', ev_receipt = Some (Some rc)\<rparr>)]))))"

section \<open>Runs of the server\<close>

text \<open>
  One unit of work of the event loop: a request handled, or an armed timer firing (the
  timer at position \<open>i\<close> of \<open>timers\<close>, which is then spent).
\<close>

datatype op =
    Create create_body string nat nat
  | Resolve string json json string nat
  | Cancel string
  | Fire nat nat nat

definition fire :: "string \<Rightarrow> state \<Rightarrow> nat \<Rightarrow> nat \<Rightarrow> nat \<Rightarrow> state \<times> (string \<times> event) list" where
  "fire secret s i now now2 =
     (if i < length (timers s) then
        (let s' = s\<lparr>timers := take i (timers s) @ drop (Suc i) (timers s)\<rparr>
         in timeout_fire secret s' (timers s ! i) now now2)
      else (s, []))"

text \<open>
  The outcome of a unit of work: the new state, the HTTP response (a timer callback
  answers nobody) and the events handed to \<open>notifySubscribers\<close>.
\<close>

fun handle :: "string \<Rightarrow> state \<Rightarrow> op \<Rightarrow> state \<times> response option \<times> (string \<times> event) list" where
  "handle secret s (Create body uid now now2) =
     (case create s body uid now now2 of (s', r, evs) \<Rightarrow> (s', Some r, evs))"
| "handle secret s (Resolve rid res rsn humanId now) =
     (case resolve secret s rid res rsn humanId now of (s', r, evs) \<Rightarrow> (s', Some r, evs))"
| "handle secret s (Cancel rid) =
     (case cancel s rid of (s', r, evs) \<Rightarrow> (s', Some r, evs))"
| "handle secret s (Fire i now now2) =
     (case fire secret s i now now2 of (s', evs) \<Rightarrow> (s', None, evs))"

definition step :: "string \<Rightarrow> state \<Rightarrow> op \<Rightarrow> state" where
  "step secret s x = fst (handle secret s x)"

definition exec :: "string \<Rightarrow> op list \<Rightarrow> state" where
  "exec secret ops = foldl (step secret) init ops"

section \<open>Invariants and selections\<close>

text \<open>The receipt invariant of a stored request, and of a store.\<close>

definition receipt_ok :: "request \<Rightarrow> bool" where
  "receipt_ok r = ((receipt r \<noteq> None) = (status r = ''completed''))"

definition store_ok :: "state \<Rightarrow> bool" where
  "store_ok s = list_all receipt_ok (map snd (requests s))"

text \<open>A stored DECIDE request carries an array of two to six options.\<close>

definition decide_ok :: "request \<Rightarrow> bool" where
  "decide_ok r =
     (action r = ''DECIDE'' \<longrightarrow>
        (case get_prop (payload r) ''options'' of
           JArr opts \<Rightarrow> 2 \<le> length opts \<and> length opts \<le> 6
         | _ \<Rightarrow> False))"

definition decides_ok :: "state \<Rightarrow> bool" where
  "decides_ok s = list_all decide_ok (map snd (requests s))"

text \<open>
  The selection of the inbox as a predicate on one request: its status is the requested
  one or \<open>assigned\<close>, and it passes the priority and action filters that are given.
\<close>

definition inbox_selects :: "string \<Rightarrow> inbox_query \<Rightarrow> request \<Rightarrow> bool" where
  "inbox_selects st q r =
     ((status r = st \<or> status r = ''assigned'') \<and>
      (given (q_priority q) \<longrightarrow> priority r = the (q_priority q)) \<and>
      (given (q_action q) \<longrightarrow> action r = the (q_action q)))"

section \<open>Concrete inputs\<close>

text \<open>The default of \<open>SERVER_SECRET\<close>, and the id of the request of the runs below.\<close>

definition dev_secret :: string where
  "dev_secret = ''hxp-dev-secret-change-me''"

definition uid0 :: string where
  "uid0 = ''a1b2c3d4e5f6''"

definition rid0 :: string where
  "rid0 = ''hxp_a1b2c3d4e5f6''"

definition opts0 :: "json list" where
  "opts0 = [JStr ''Approve'', JStr ''Deny'']"

text \<open>
  A DECIDE body with a one second timeout, the given \<open>fallback\<close>, options and further
  payload properties; the request that \<open>create\<close> stores for it at time 1000, and the
  timer it arms.
\<close>

definition decide_body :: "string \<Rightarrow> json list \<Rightarrow> (string \<times> json) list \<Rightarrow> create_body" where
  "decide_body fb opts extra =
     \<lparr>b_action = ''DECIDE'', b_role = None, b_priority = None,
      b_timeout_seconds = Some 1, b_fallback = Some fb,
      b_agent_id = Some ''agent_alpha_01'', b_project_id = None, b_metadata = None,
      b_payload = Some ([(''question'', JStr ''Approve $99/mo Stripe plan?''),
                         (''options'', JArr opts)] @ extra)\<rparr>"

definition decide_request :: "string \<Rightarrow> json list \<Rightarrow> (string \<times> json) list \<Rightarrow> request" where
  "decide_request fb opts extra =
     \<lparr>request_id = rid0, action = ''DECIDE'', role = ''owner'',
      priority = ''normal'', timeout_seconds = 1, fallback = fb,
      agent_id = ''agent_alpha_01'', project_id = None, metadata = JObj [],
      payload = [(''question'', JStr ''Approve $99/mo Stripe plan?''),
                 (''options'', JArr opts)] @ extra,
      status = ''pending'', created_at = 1000, expires_at = Some 2000, receipt = None\<rparr>"

definition decide_timer :: "string \<Rightarrow> json list \<Rightarrow> (string \<times> json) list \<Rightarrow> timer" where
  "decide_timer fb opts extra =
     \<lparr>t_request_id = rid0, t_action = ''DECIDE'', t_fallback = fb,
      t_payload = [(''question'', JStr ''Approve $99/mo Stripe plan?''),
                   (''options'', JArr opts)] @ extra,
      t_timeout_seconds = 1\<rparr>"

definition create_decide :: "string \<Rightarrow> json list \<Rightarrow> (string \<times> json) list \<Rightarrow> op" where
  "create_decide fb opts extra = Create (decide_body fb opts extra) uid0 1000 1000"

text \<open>The receipt of resolving that request with \<open>Approve\<close> at time 5000.\<close>

definition decide_receipt :: receipt where
  "decide_receipt =
     \<lparr>rc_request_id = rid0, rc_status = ''completed'', result = JStr ''Approve'',
      reason = JNull, completed_by = ''dev-human-token'', completed_at = 5000,
      duration_seconds = 4,
      evidence_hash = generateEvidenceHash dev_secret rid0 (JStr ''Approve'') 5000\<rparr>"

definition resolve_approve :: op where
  "resolve_approve = Resolve rid0 (JStr ''Approve'') JUndefined ''dev-human-token'' 5000"

text \<open>The synthetic receipt of a timer firing with clock reads 2000 and 2001.\<close>

definition timeout_receipt :: receipt where
  "timeout_receipt =
     \<lparr>rc_request_id = rid0, rc_status = ''completed'', result = JStr ''Deny'',
      reason = JStr timeout_reason, completed_by = ''system'', completed_at = 2000,
      duration_seconds = 1,
      evidence_hash = generateEvidenceHash dev_secret rid0 (JStr ''Deny'') 2001\<rparr>"

text \<open>An APPROVE body without timeout whose rejection needs a reason, and its request.\<close>

definition approve_body :: create_body where
  "approve_body =
     \<lparr>b_action = ''APPROVE'', b_role = None, b_priority = Some ''high'',
      b_timeout_seconds = None, b_fallback = None,
      b_agent_id = Some ''agent_alpha_01'', b_project_id = None, b_metadata = None,
      b_payload = Some [(''item'', JStr ''Expense #1''),
                        (''details'', JObj [(''amount'', JNum 50)]),
                        (''reject_requires_reason'', JBool True)]\<rparr>"

definition approve_request :: request where
  "approve_request =
     \<lparr>request_id = rid0, action = ''APPROVE'', role = ''owner'',
      priority = ''high'', timeout_seconds = 0, fallback = ''pause'',
      agent_id = ''agent_alpha_01'', project_id = None, metadata = JObj [],
      payload = [(''item'', JStr ''Expense #1''),
                 (''details'', JObj [(''amount'', JNum 50)]),
                 (''reject_requires_reason'', JBool True)],
      status = ''pending'', created_at = 1000, expires_at = None, receipt = None\<rparr>"

text \<open>A stored request in a given status, for a store written down directly.\<close>

definition stored :: "string \<Rightarrow> string \<Rightarrow> string \<Rightarrow> nat \<Rightarrow> request" where
  "stored rid st prio t =
     \<lparr>request_id = rid, action = ''PROVIDE'', role = ''owner'', priority = prio,
      timeout_seconds = 0, fallback = ''pause'', agent_id = ''agent_alpha_01'',
      project_id = None, metadata = JObj [],
      payload = [(''prompt'', JStr ''API key?''), (''input_type'', JStr ''text'')],
      status = st, created_at = t, expires_at = None, receipt = None\<rparr>"

definition inbox_store :: state where
  "inbox_store =
     \<lparr>requests = [(''hxp_1'', stored ''hxp_1'' ''pending'' ''normal'' 1000),
                   (''hxp_2'', stored ''hxp_2'' ''assigned'' ''high'' 2000),
                   (''hxp_3'', stored ''hxp_3'' ''expired'' ''low'' 3000),
                   (''hxp_4'', stored ''hxp_4'' ''expired'' ''high'' 4000)],
      timers = []\<rparr>"

definition expired_high :: inbox_query where
  "expired_high = \<lparr>q_status = Some ''expired'', q_priority = Some ''high'', q_action = None\<rparr>"

section \<open>Properties of the helpers\<close>

lemma map_of_update_same: "map_of (AList.update k v al) k = Some v"
  by (simp add: update_conv')

lemma list_all_update:
  "list_all P (map snd al) \<Longrightarrow> P v \<Longrightarrow> list_all P (map snd (AList.update k v al))"
  by (induction al) auto

lemma list_all_map_of:
  "list_all P (map snd al) \<Longrightarrow> map_of al k = Some v \<Longrightarrow> P v"
  by (auto simp: list_all_iff dest!: map_of_SomeD)

lemma array_includes_member: "array_includes xs v \<Longrightarrow> v \<in> set xs"
proof -
  have "same_value_zero u v \<Longrightarrow> u = v" for u
    by (cases u) simp_all
  then show "array_includes xs v \<Longrightarrow> v \<in> set xs"
    by (auto simp: array_includes_def list_ex_iff)
qed

lemma array_includes_string: "JStr x \<in> set xs \<Longrightarrow> array_includes xs (JStr x)"
  by (auto simp: array_includes_def list_ex_iff intro!: bexI [where x = "JStr x"])

lemma set_insert_by: "set (insert_by cmp x ys) = insert x (set ys)"
  by (induction ys) auto

lemma set_sort_by: "set (sort_by cmp xs) = set xs"
  unfolding sort_by_def by (induction xs) (simp_all add: set_insert_by)

lemma length_insert_by: "length (insert_by cmp x ys) = Suc (length ys)"
  by (induction ys) auto

lemma length_sort_by: "length (sort_by cmp xs) = length xs"
  unfolding sort_by_def by (induction xs) (simp_all add: length_insert_by)

section \<open>The receipt invariant\<close>

lemma store_ok_init: "store_ok init"
  by (simp add: store_ok_def init_def)

lemma create_store_ok:
  assumes "store_ok s"
  shows "store_ok (fst (create s body uid now now2))"
  using assms
  by (auto simp: create_def Let_def store_ok_def receipt_ok_def
           intro!: list_all_update split: option.splits)

lemma cancel_store_ok:
  assumes "store_ok s"
  shows "store_ok (fst (cancel s rid))"
proof (cases "map_of (requests s) rid")
  case None
  with assms show ?thesis by (simp add: cancel_def)
next
  case (Some req)
  with assms have ok: "receipt_ok req"
    unfolding store_ok_def by (rule list_all_map_of)
  show ?thesis
  proof (cases "status req \<noteq> ''pending'' \<and> status req \<noteq> ''assigned''")
    case True
    with Some assms show ?thesis by (simp add: cancel_def)
  next
    case False
    with ok have "receipt_ok (req\<lparr>status := ''cancelled''\<rparr>)"
      by (auto simp: receipt_ok_def)
    with False Some assms show ?thesis
      by (auto simp: cancel_def store_ok_def intro!: list_all_update)
  qed
qed

lemma resolve_store_ok:
  assumes "store_ok s"
  shows "store_ok (fst (resolve secret s rid res rsn humanId now))"
proof (cases "map_of (requests s) rid")
  case None
  with assms show ?thesis by (simp add: resolve_def)
next
  case (Some req)
  have "receipt_ok (req\<lparr>status := ''completed'', receipt := Some rc\<rparr>)" for rc
    by (simp add: receipt_ok_def)
  with Some assms show ?thesis
    by (auto simp: resolve_def Let_def store_ok_def intro!: list_all_update
             split: sum.splits option.splits)
qed

lemma timeout_fire_store_ok:
  assumes "store_ok s"
  shows "store_ok (fst (timeout_fire secret s tm now now2))"
proof (cases "map_of (requests s) (t_request_id tm)")
  case None
  with assms show ?thesis by (simp add: timeout_fire_def)
next
  case (Some req)
  with assms have ok: "receipt_ok req"
    unfolding store_ok_def by (rule list_all_map_of)
  show ?thesis
  proof (cases "status req = ''pending''")
    case False
    with Some assms show ?thesis by (simp add: timeout_fire_def)
  next
    case True
    with ok have a: "receipt_ok (req\<lparr>status := ''expired''\<rparr>)"
      by (auto simp: receipt_ok_def)
    have b: "receipt_ok (req\<lparr>status := ''completed'', receipt := Some rc\<rparr>)" for rc
      by (simp add: receipt_ok_def)
    from True Some assms a b show ?thesis
      by (auto simp: timeout_fire_def Let_def store_ok_def intro!: list_all_update)
  qed
qed

lemma fire_store_ok:
  assumes "store_ok s"
  shows "store_ok (fst (fire secret s i now now2))"
proof (cases "i < length (timers s)")
  case False
  with assms show ?thesis by (simp add: fire_def)
next
  case True
  from assms have "store_ok (s\<lparr>timers := take i (timers s) @ drop (Suc i) (timers s)\<rparr>)"
    by (simp add: store_ok_def)
  then show ?thesis using True
    by (simp add: fire_def Let_def timeout_fire_store_ok)
qed

lemma step_store_ok: "store_ok s \<Longrightarrow> store_ok (step secret s x)"
  by (cases x)
     (simp_all add: step_def split_beta create_store_ok resolve_store_ok cancel_store_ok
        fire_store_ok)

lemma foldl_step_store_ok: "store_ok s \<Longrightarrow> store_ok (foldl (step secret) s ops)"
  by (induction ops arbitrary: s) (simp_all add: step_store_ok)

text \<open>
  C1. In every state that a run of the server reaches from the empty store (any
  sequence of create, resolve, cancel and timer firings, each one atomic), every stored
  request has a receipt if and only if its status is \<open>completed\<close>.
\<close>

theorem C1_receipt_iff_completed:
  assumes "map_of (requests (exec secret ops)) rid = Some r"
  shows "(receipt r \<noteq> None) = (status r = ''completed'')"
proof -
  have "store_ok (exec secret ops)"
    unfolding exec_def by (rule foldl_step_store_ok [OF store_ok_init])
  then have "receipt_ok r"
    unfolding store_ok_def using assms by (rule list_all_map_of)
  then show ?thesis by (simp add: receipt_ok_def)
qed

text \<open>
  The invariant at the run that creates a DECIDE request and resolves it: the stored
  request is completed and holds its receipt.
\<close>

theorem C1_receipt_iff_completed_witness:
  "map_of (requests (exec dev_secret [create_decide ''pause'' opts0 [], resolve_approve])) rid0 =
     Some ((decide_request ''pause'' opts0 [])
             \<lparr>status := ''completed'', receipt := Some decide_receipt\<rparr>) \<and>
   (receipt ((decide_request ''pause'' opts0 [])
              \<lparr>status := ''completed'', receipt := Some decide_receipt\<rparr>) \<noteq> None) =
   (status ((decide_request ''pause'' opts0 [])
              \<lparr>status := ''completed'', receipt := Some decide_receipt\<rparr>) = ''completed'')"
proof -
  have h: "map_of (requests (exec dev_secret [create_decide ''pause'' opts0 [], resolve_approve]))
             rid0 =
           Some ((decide_request ''pause'' opts0 [])
                   \<lparr>status := ''completed'', receipt := Some decide_receipt\<rparr>)"
    by code_simp
  from h C1_receipt_iff_completed [OF h] show ?thesis
    by (rule conjI)
qed

section \<open>Timer firings\<close>

text \<open>
  What the callback does to a request that is still pending when the policy captured by
  the timer is not \<open>default\<close>: whatever the policy, the request becomes \<open>expired\<close>,
  keeps its receipt field, and the event \<open>expired\<close> is published.
\<close>

lemma timeout_fire_not_default:
  assumes "map_of (requests s) (t_request_id tm) = Some r"
    and "status r = ''pending''"
    and "t_fallback tm \<noteq> ''default''"
  shows "timeout_fire secret s tm now now2 =
           (s\<lparr>requests := AList.update (t_request_id tm) (r\<lparr>status := ''expired''\<rparr>)
                              (requests s)\<rparr>,
            [(t_request_id tm, \<lparr>ev_event = ''expired'', ev_receipt = Some (receipt r)\<rparr>)])"
  using assms by (simp add: timeout_fire_def Let_def)

text \<open>
  C2. The claim: a timer firing for a pending request with fallback \<open>fail\<close> makes it
  \<open>failed\<close> with reason "timeout". The code at that input: a DECIDE request created
  with a one second timeout and fallback \<open>fail\<close>, then its timer fires. The stored
  request is \<open>expired\<close>, it has no receipt and so no reason, and the event published is
  \<open>expired\<close>.
\<close>

theorem C2_fail_fallback_expires:
  "map_of (requests (exec dev_secret [create_decide ''fail'' opts0 [], Fire 0 2000 2000])) rid0 =
     Some ((decide_request ''fail'' opts0 [])\<lparr>status := ''expired''\<rparr>) \<and>
   snd (fire dev_secret (exec dev_secret [create_decide ''fail'' opts0 []]) 0 2000 2000) =
     [(rid0, \<lparr>ev_event = ''expired'', ev_receipt = Some None\<rparr>)]"
  by code_simp

text \<open>
  C3. The claim: a timer firing for a pending request with fallback \<open>pause\<close> is a no-op
  and publishes nothing. The code at that input: a DECIDE request created with a one
  second timeout and fallback \<open>pause\<close>, then its timer fires. The stored request is
  \<open>expired\<close>, no longer \<open>pending\<close>, and the event \<open>expired\<close> is published.
\<close>

theorem C3_pause_fallback_expires:
  "map_of (requests (exec dev_secret [create_decide ''pause'' opts0 [], Fire 0 2000 2000])) rid0 =
     Some ((decide_request ''pause'' opts0 [])\<lparr>status := ''expired''\<rparr>) \<and>
   snd (fire dev_secret (exec dev_secret [create_decide ''pause'' opts0 []]) 0 2000 2000) =
     [(rid0, \<lparr>ev_event = ''expired'', ev_receipt = Some None\<rparr>)]"
  by code_simp

text \<open>
  C5, as stated, at a DECIDE request with fallback \<open>default\<close> whose payload carries the
  empty string as \<open>default_option\<close> (one of its options): the property is present, and
  the timer firing leaves the request \<open>expired\<close> without receipt, not \<open>completed\<close>.
\<close>

theorem C5_counterexample:
  "map_of (payload (decide_request ''default'' [JStr '''', JStr ''Deny'']
                      [(''default_option'', JStr '''')])) ''default_option'' = Some (JStr '''') \<and>
   map_of (requests (exec dev_secret
       [create_decide ''default'' [JStr '''', JStr ''Deny''] [(''default_option'', JStr '''')],
        Fire 0 2000 2000])) rid0 =
     Some ((decide_request ''default'' [JStr '''', JStr ''Deny'']
              [(''default_option'', JStr '''')])\<lparr>status := ''expired''\<rparr>)"
  by code_simp

text \<open>
  C5, amended. A timer fires whose captured action, fallback and payload are those of
  the request it was armed for, the request is still pending and its fallback is
  \<open>default\<close>. If the action is DECIDE and \<open>default_option\<close> is truthy (for a string: not
  empty), the request is \<open>completed\<close> by that firing, with a receipt whose result is
  \<open>default_option\<close>, whose \<open>completed_by\<close> is \<open>system\<close> and whose reason is the timeout
  text. In every other case the request is \<open>expired\<close> and its receipt field is untouched.
\<close>

theorem C5_default_fallback:
  assumes "map_of (requests s) rid = Some r"
    and "status r = ''pending''"
    and "fallback r = ''default''"
    and "t_request_id tm = rid"
    and "t_action tm = action r"
    and "t_fallback tm = fallback r"
    and "t_payload tm = payload r"
  shows "\<exists>r'. map_of (requests (fst (timeout_fire secret s tm now now2))) rid = Some r' \<and>
     (if action r = ''DECIDE'' \<and> truthy (get_prop (payload r) ''default_option'')
      then status r' = ''completed'' \<and>
           (\<exists>rc. receipt r' = Some rc \<and>
                 result rc = get_prop (payload r) ''default_option'' \<and>
                 completed_by rc = ''system'' \<and>
                 reason rc = JStr timeout_reason)
      else status r' = ''expired'' \<and> receipt r' = receipt r)"
  using assms by (auto simp: timeout_fire_def Let_def map_of_update_same)

text \<open>
  The amended C5 at the scenario of the specification: DECIDE with a one second timeout,
  fallback \<open>default\<close> and \<open>default_option\<close> \<open>Deny\<close>, left unresolved.
\<close>

theorem C5_default_fallback_witness:
  "\<exists>r'. map_of (requests (fst (timeout_fire dev_secret
             (exec dev_secret [create_decide ''default'' opts0 [(''default_option'', JStr ''Deny'')]])
             (decide_timer ''default'' opts0 [(''default_option'', JStr ''Deny'')]) 2000 2001)))
           rid0 = Some r' \<and>
         status r' = ''completed'' \<and>
         (\<exists>rc. receipt r' = Some rc \<and> result rc = JStr ''Deny'' \<and>
               completed_by rc = ''system'' \<and> reason rc = JStr timeout_reason)"
proof -
  let ?r = "decide_request ''default'' opts0 [(''default_option'', JStr ''Deny'')]"
  let ?tm = "decide_timer ''default'' opts0 [(''default_option'', JStr ''Deny'')]"
  have h: "map_of (requests (exec dev_secret
             [create_decide ''default'' opts0 [(''default_option'', JStr ''Deny'')]])) rid0 = Some ?r"
    by code_simp
  have p: "status ?r = ''pending''" and f: "fallback ?r = ''default''"
    by (simp_all add: decide_request_def)
  have t: "t_request_id ?tm = rid0" "t_action ?tm = action ?r" "t_fallback ?tm = fallback ?r"
      "t_payload ?tm = payload ?r"
    by (simp_all add: decide_request_def decide_timer_def)
  have d: "action ?r = ''DECIDE''" "get_prop (payload ?r) ''default_option'' = JStr ''Deny''"
    by (simp_all add: decide_request_def get_prop_def)
  from C5_default_fallback [OF h p f t, of dev_secret 2000 2001] d show ?thesis
    by simp
qed

text \<open>
  C9. The claim: the evidence hash of every stored receipt is the digest over the
  receipt's own \<open>completed_at\<close>. The code at a timer firing whose two clock reads fall
  on different milliseconds (2000 and 2001): the synthetic receipt stores 2000 as
  \<open>completed_at\<close>, and its evidence hash is the digest over 2001.
\<close>

theorem C9_timer_hash_timestamp:
  "map_of (requests (exec dev_secret
      [create_decide ''default'' opts0 [(''default_option'', JStr ''Deny'')], Fire 0 2000 2001])) rid0 =
     Some ((decide_request ''default'' opts0 [(''default_option'', JStr ''Deny'')])
             \<lparr>status := ''completed'', receipt := Some timeout_receipt\<rparr>) \<and>
   completed_at timeout_receipt = 2000 \<and>
   evidence_hash timeout_receipt = generateEvidenceHash dev_secret rid0 (JStr ''Deny'') 2001"
  by code_simp

text \<open>
  On the resolve path the hash is computed from the receipt's own fields: the same
  \<open>completedAt\<close> goes into the receipt and into the digest.
\<close>

lemma resolve_receipt_hash:
  assumes "resolve secret s rid res rsn humanId now = (s', Resolved rc, evs)"
  shows "evidence_hash rc = generateEvidenceHash secret (rc_request_id rc) (result rc) (completed_at rc)"
  using assms
  by (auto simp: resolve_def Let_def split: option.splits if_splits sum.splits)


section \<open>Stored DECIDE requests\<close>

text \<open>
  Every DECIDE request that a run of the server stores has an array of two to six
  options, so the \<open>includes\<close> call of \<open>validateResult\<close> never throws on a stored
  request.
\<close>

lemma validatePayload_decide:
  assumes "validatePayload ''DECIDE'' pl = None"
  shows "case get_prop pl ''options'' of JArr opts \<Rightarrow> 2 \<le> length opts \<and> length opts \<le> 6 | _ \<Rightarrow> False"
  using assms by (auto simp: validatePayload_def split: json.splits if_splits)

lemma decide_ok_status: "decide_ok (r\<lparr>status := st\<rparr>) = decide_ok r"
  by (simp add: decide_ok_def)

lemma decide_ok_receipt: "decide_ok (r\<lparr>status := st, receipt := rc\<rparr>) = decide_ok r"
  by (simp add: decide_ok_def)

lemma create_decides_ok:
  assumes "decides_ok s"
  shows "decides_ok (fst (create s body uid now now2))"
proof (cases "validatePayload (b_action body) (or_default (b_payload body) [])")
  case (Some m)
  with assms show ?thesis by (simp add: create_def Let_def)
next
  case None
  then have "b_action body = ''DECIDE'' \<longrightarrow>
      (case get_prop (or_default (b_payload body) []) ''options'' of
         JArr opts \<Rightarrow> 2 \<le> length opts \<and> length opts \<le> 6 | _ \<Rightarrow> False)"
    using validatePayload_decide by auto
  with None assms show ?thesis
    by (auto simp: create_def Let_def decides_ok_def decide_ok_def intro!: list_all_update)
qed

lemma cancel_decides_ok:
  assumes "decides_ok s"
  shows "decides_ok (fst (cancel s rid))"
proof (cases "map_of (requests s) rid")
  case None
  with assms show ?thesis by (simp add: cancel_def)
next
  case (Some req)
  with assms have "decide_ok req"
    unfolding decides_ok_def by (rule list_all_map_of)
  with Some assms show ?thesis
    by (auto simp: cancel_def decides_ok_def decide_ok_status intro!: list_all_update)
qed

lemma resolve_decides_ok:
  assumes "decides_ok s"
  shows "decides_ok (fst (resolve secret s rid res rsn humanId now))"
proof (cases "map_of (requests s) rid")
  case None
  with assms show ?thesis by (simp add: resolve_def)
next
  case (Some req)
  with assms have "decide_ok req"
    unfolding decides_ok_def by (rule list_all_map_of)
  with Some assms show ?thesis
    by (auto simp: resolve_def Let_def decides_ok_def decide_ok_receipt intro!: list_all_update
             split: sum.splits option.splits)
qed

lemma timeout_fire_decides_ok:
  assumes "decides_ok s"
  shows "decides_ok (fst (timeout_fire secret s tm now now2))"
proof (cases "map_of (requests s) (t_request_id tm)")
  case None
  with assms show ?thesis by (simp add: timeout_fire_def)
next
  case (Some req)
  with assms have "decide_ok req"
    unfolding decides_ok_def by (rule list_all_map_of)
  then have "decide_ok (req\<lparr>status := st\<rparr>)" "decide_ok (req\<lparr>status := st, receipt := rc\<rparr>)" for st rc
    by (simp_all add: decide_ok_def)
  with Some assms show ?thesis
    by (auto simp: timeout_fire_def Let_def decides_ok_def intro!: list_all_update)
qed

lemma step_decides_ok: "decides_ok s \<Longrightarrow> decides_ok (step secret s x)"
proof (cases x)
  case (Fire i now now2)
  assume a: "decides_ok s"
  then have "decides_ok (s\<lparr>timers := ts\<rparr>)" for ts
    by (simp add: decides_ok_def)
  then show ?thesis using a Fire
    by (simp add: step_def split_beta fire_def Let_def timeout_fire_decides_ok)
qed (simp_all add: step_def split_beta create_decides_ok resolve_decides_ok cancel_decides_ok)

lemma exec_decide_options:
  assumes "map_of (requests (exec secret ops)) rid = Some r"
    and "action r = ''DECIDE''"
  shows "\<exists>opts. get_prop (payload r) ''options'' = JArr opts \<and> 2 \<le> length opts \<and> length opts \<le> 6"
proof -
  have "decides_ok s \<Longrightarrow> decides_ok (foldl (step secret) s ops)" for s
    by (induction ops arbitrary: s) (simp_all add: step_decides_ok)
  moreover have "decides_ok init"
    by (simp add: decides_ok_def init_def)
  ultimately have "decides_ok (exec secret ops)"
    by (simp add: exec_def)
  then have "decide_ok r"
    unfolding decides_ok_def using assms(1) by (rule list_all_map_of)
  with assms(2) show ?thesis
    by (auto simp: decide_ok_def split: json.splits)
qed

section \<open>Resolution\<close>

text \<open>
  C6. For a stored DECIDE request that is pending or assigned, with the options array
  \<open>opts\<close>: a result that is given (neither null nor absent) and is not an element of
  \<open>opts\<close> is answered with 422 \<open>invalid_result\<close> and nothing changes; a result that is
  a string equal to one of the options succeeds, whatever the reason: the receipt
  carries it, the stored request is completed with that receipt, and \<open>completed\<close> is
  published.
\<close>

theorem C6_decide_result:
  assumes "map_of (requests s) rid = Some r"
    and "action r = ''DECIDE''"
    and "status r = ''pending'' \<or> status r = ''assigned''"
    and "get_prop (payload r) ''options'' = JArr opts"
  shows "(res \<noteq> JNull \<and> res \<noteq> JUndefined \<and> res \<notin> set opts \<longrightarrow>
            resolve secret s rid res rsn humanId now =
              (s, Err 422 ''invalid_result'' (Msg_one_of opts), [])) \<and>
         (JStr x \<in> set opts \<longrightarrow>
            (\<exists>rc s'. resolve secret s rid (JStr x) rsn humanId now =
                 (s', Resolved rc,
                  [(rid, \<lparr>ev_event = ''completed'', ev_receipt = Some (Some rc)\<rparr>)]) \<and>
               result rc = JStr x \<and>
               map_of (requests s') rid =
                 Some (r\<lparr>status := ''completed'', receipt := Some rc\<rparr>)))"
proof (intro conjI impI)
  assume a: "res \<noteq> JNull \<and> res \<noteq> JUndefined \<and> res \<notin> set opts"
  then have "\<not> array_includes opts res"
    using array_includes_member by blast
  then have "validateResult r res = Inr (Some (Msg_one_of opts))"
    using assms by (simp add: validateResult_def)
  with a assms show "resolve secret s rid res rsn humanId now =
      (s, Err 422 ''invalid_result'' (Msg_one_of opts), [])"
    by (auto simp: resolve_def)
next
  assume "JStr x \<in> set opts"
  then have "array_includes opts (JStr x)"
    by (rule array_includes_string)
  then have "validateResult r (JStr x) = Inr None"
    using assms by (simp add: validateResult_def)
  with assms show "\<exists>rc s'. resolve secret s rid (JStr x) rsn humanId now =
        (s', Resolved rc, [(rid, \<lparr>ev_event = ''completed'', ev_receipt = Some (Some rc)\<rparr>)]) \<and>
      result rc = JStr x \<and>
      map_of (requests s') rid = Some (r\<lparr>status := ''completed'', receipt := Some rc\<rparr>)"
    by (auto simp: resolve_def Let_def map_of_update_same)
qed

text \<open>
  C6 at a pending DECIDE request with the options Approve and Deny: \<open>Maybe\<close> is refused,
  \<open>Approve\<close> completes the request.
\<close>

theorem C6_decide_result_witness:
  "resolve dev_secret (exec dev_secret [create_decide ''pause'' opts0 []]) rid0
       (JStr ''Maybe'') JUndefined ''dev-human-token'' 5000 =
     (exec dev_secret [create_decide ''pause'' opts0 []],
      Err 422 ''invalid_result'' (Msg_one_of opts0), []) \<and>
   (\<exists>rc s'. resolve dev_secret (exec dev_secret [create_decide ''pause'' opts0 []]) rid0
                (JStr ''Approve'') JUndefined ''dev-human-token'' 5000 =
        (s', Resolved rc, [(rid0, \<lparr>ev_event = ''completed'', ev_receipt = Some (Some rc)\<rparr>)]) \<and>
      result rc = JStr ''Approve'' \<and>
      map_of (requests s') rid0 =
        Some ((decide_request ''pause'' opts0 [])\<lparr>status := ''completed'', receipt := Some rc\<rparr>))"
proof -
  let ?r = "decide_request ''pause'' opts0 []"
  have h: "map_of (requests (exec dev_secret [create_decide ''pause'' opts0 []])) rid0 = Some ?r"
    by code_simp
  have a: "action ?r = ''DECIDE''" and p: "status ?r = ''pending'' \<or> status ?r = ''assigned''"
    and o: "get_prop (payload ?r) ''options'' = JArr opts0"
    by (simp_all add: decide_request_def get_prop_def)
  have m: "JStr ''Maybe'' \<notin> set opts0" "JStr ''Approve'' \<in> set opts0"
    by (simp_all add: opts0_def)
  from C6_decide_result [OF h a p o, of "JStr ''Maybe''" dev_secret JUndefined
      "''dev-human-token''" 5000 "''Approve''"] m
  show ?thesis by simp
qed

text \<open>
  C7. For a stored APPROVE request that is pending and whose payload has
  \<open>reject_requires_reason\<close> true: resolving with \<open>rejected\<close> and no reason (absent, null
  or otherwise falsy) is answered with 422 \<open>reason_required\<close>, and the state, so the
  status \<open>pending\<close>, is unchanged; resolving with \<open>rejected\<close> and a non-empty string as
  reason succeeds and completes the request.
\<close>

theorem C7_reject_requires_reason:
  assumes "map_of (requests s) rid = Some r"
    and "action r = ''APPROVE''"
    and "status r = ''pending''"
    and "get_prop (payload r) ''reject_requires_reason'' = JBool True"
  shows "(\<not> truthy rsn \<longrightarrow>
            resolve secret s rid (JStr ''rejected'') rsn humanId now =
              (s, Err 422 ''reason_required''
                    (Msg ''A reason is required when rejecting this request''), [])) \<and>
         (t \<noteq> [] \<longrightarrow>
            (\<exists>rc s'. resolve secret s rid (JStr ''rejected'') (JStr t) humanId now =
                 (s', Resolved rc,
                  [(rid, \<lparr>ev_event = ''completed'', ev_receipt = Some (Some rc)\<rparr>)]) \<and>
               result rc = JStr ''rejected'' \<and> reason rc = JStr t \<and>
               map_of (requests s') rid =
                 Some (r\<lparr>status := ''completed'', receipt := Some rc\<rparr>)))"
proof -
  have v: "validateResult r (JStr ''rejected'') = Inr None"
    using assms by (simp add: validateResult_def array_includes_def)
  show ?thesis
    using assms v by (auto simp: resolve_def Let_def map_of_update_same)
qed

text \<open>
  C7 at the scenario of the specification: APPROVE of \<open>Expense #1\<close> with
  \<open>reject_requires_reason\<close>, rejected first without a reason, then with one.
\<close>

theorem C7_reject_requires_reason_witness:
  "resolve dev_secret (exec dev_secret [Create approve_body uid0 1000 1000]) rid0
       (JStr ''rejected'') JUndefined ''dev-human-token'' 5000 =
     (exec dev_secret [Create approve_body uid0 1000 1000],
      Err 422 ''reason_required'' (Msg ''A reason is required when rejecting this request''), []) \<and>
   (\<exists>rc s'. resolve dev_secret (exec dev_secret [Create approve_body uid0 1000 1000]) rid0
                (JStr ''rejected'') (JStr ''over budget'') ''dev-human-token'' 5000 =
        (s', Resolved rc, [(rid0, \<lparr>ev_event = ''completed'', ev_receipt = Some (Some rc)\<rparr>)]) \<and>
      result rc = JStr ''rejected'' \<and> reason rc = JStr ''over budget'' \<and>
      map_of (requests s') rid0 =
        Some (approve_request\<lparr>status := ''completed'', receipt := Some rc\<rparr>))"
proof -
  have h: "map_of (requests (exec dev_secret [Create approve_body uid0 1000 1000])) rid0 =
      Some approve_request"
    by code_simp
  have a: "action approve_request = ''APPROVE''" and p: "status approve_request = ''pending''"
    and f: "get_prop (payload approve_request) ''reject_requires_reason'' = JBool True"
    by (simp_all add: approve_request_def get_prop_def)
  from C7_reject_requires_reason [OF h a p f, of JUndefined dev_secret "''dev-human-token''"
      5000 "''over budget''"]
  show ?thesis by simp
qed

section \<open>Requests that are no longer open\<close>

text \<open>
  C4, as stated, at a completed request whose timer is still armed: the request was
  created with a one second timeout and resolved before the timer fired. The late
  firing answers nobody: it yields no response at all, so no Conflict error.
\<close>

theorem C4_counterexample:
  "map_of (requests (exec dev_secret [create_decide ''pause'' opts0 [], resolve_approve])) rid0 =
     Some ((decide_request ''pause'' opts0 [])
             \<lparr>status := ''completed'', receipt := Some decide_receipt\<rparr>) \<and>
   timers (exec dev_secret [create_decide ''pause'' opts0 [], resolve_approve]) =
     [decide_timer ''pause'' opts0 []] \<and>
   fst (snd (handle dev_secret
               (exec dev_secret [create_decide ''pause'' opts0 [], resolve_approve])
               (Fire 0 9000 9000))) = None"
  by code_simp

text \<open>
  C4, amended. For a stored request whose status is \<open>completed\<close>, \<open>cancelled\<close>,
  \<open>expired\<close> or \<open>failed\<close>: cancel is answered with 409 \<open>conflict\<close>; a timer firing for
  it is silent, with no response and no event; and, unless the status is \<open>failed\<close>,
  resolve is answered with 409, error \<open>expired\<close> for an expired request and \<open>conflict\<close>
  otherwise. None of them changes the state, so the stored request and its receipt stay
  as they are.
\<close>

theorem C4_terminal_no_mutation:
  assumes "map_of (requests s) rid = Some r"
    and "status r \<in> {''completed'', ''cancelled'', ''expired'', ''failed''}"
  shows "cancel s rid = (s, Err 409 ''conflict'' (Msg ''Request already resolved''), []) \<and>
         (t_request_id tm = rid \<longrightarrow> timeout_fire secret s tm now now2 = (s, [])) \<and>
         (status r \<noteq> ''failed'' \<longrightarrow>
            resolve secret s rid res rsn humanId now =
              (s, (if status r = ''expired''
                   then Err 409 ''expired'' (Msg ''Request has expired'')
                   else Err 409 ''conflict'' (Msg ''Request already resolved'')), []))"
  using assms by (auto simp: cancel_def timeout_fire_def resolve_def)

text \<open>
  The amended C4 at the scenario of the specification: a completed request is cancelled,
  resolved again and reached by its timer; the state with its receipt is unchanged.
\<close>

theorem C4_terminal_no_mutation_witness:
  "cancel (exec dev_secret [create_decide ''pause'' opts0 [], resolve_approve]) rid0 =
     (exec dev_secret [create_decide ''pause'' opts0 [], resolve_approve],
      Err 409 ''conflict'' (Msg ''Request already resolved''), []) \<and>
   timeout_fire dev_secret (exec dev_secret [create_decide ''pause'' opts0 [], resolve_approve])
       (decide_timer ''pause'' opts0 []) 9000 9000 =
     (exec dev_secret [create_decide ''pause'' opts0 [], resolve_approve], []) \<and>
   resolve dev_secret (exec dev_secret [create_decide ''pause'' opts0 [], resolve_approve]) rid0
       (JStr ''Deny'') JUndefined ''dev-human-token'' 9000 =
     (exec dev_secret [create_decide ''pause'' opts0 [], resolve_approve],
      Err 409 ''conflict'' (Msg ''Request already resolved''), [])"
proof -
  let ?r = "(decide_request ''pause'' opts0 [])
              \<lparr>status := ''completed'', receipt := Some decide_receipt\<rparr>"
  have h: "map_of (requests (exec dev_secret [create_decide ''pause'' opts0 [], resolve_approve]))
             rid0 = Some ?r"
    by code_simp
  have t: "status ?r \<in> {''completed'', ''cancelled'', ''expired'', ''failed''}"
    by simp
  have i: "t_request_id (decide_timer ''pause'' opts0 []) = rid0"
    by (simp add: decide_timer_def)
  from C4_terminal_no_mutation [OF h t, of "decide_timer ''pause'' opts0 []" dev_secret
      9000 9000 "JStr ''Deny''" JUndefined "''dev-human-token''"] i
  show ?thesis by simp
qed

text \<open>
  The resolve handler names the statuses it refuses; \<open>failed\<close>, which no handler
  writes, is not among them.
\<close>

lemma resolve_failed_not_refused:
  "fst (snd (resolve dev_secret
       \<lparr>requests = [(''hxp_1'', stored ''hxp_1'' ''failed'' ''normal'' 1000)], timers = []\<rparr>
       ''hxp_1'' (JStr ''sk-123'') JUndefined ''dev-human-token'' 5000)) =
   Resolved \<lparr>rc_request_id = ''hxp_1'', rc_status = ''completed'', result = JStr ''sk-123'',
             reason = JNull, completed_by = ''dev-human-token'', completed_at = 5000,
             duration_seconds = 4,
             evidence_hash = generateEvidenceHash dev_secret ''hxp_1'' (JStr ''sk-123'') 5000\<rparr>"
  by code_simp

text \<open>
  C8, as stated, at a request that expired by its timer: cancelling it is answered with
  the generic conflict, the very response that cancelling a completed request gets, and
  not with the error \<open>expired\<close>.
\<close>

theorem C8_counterexample:
  "map_of (requests (exec dev_secret [create_decide ''pause'' opts0 [], Fire 0 2000 2000])) rid0 =
     Some ((decide_request ''pause'' opts0 [])\<lparr>status := ''expired''\<rparr>) \<and>
   fst (snd (cancel (exec dev_secret [create_decide ''pause'' opts0 [], Fire 0 2000 2000]) rid0)) =
     Err 409 ''conflict'' (Msg ''Request already resolved'') \<and>
   fst (snd (cancel (exec dev_secret [create_decide ''pause'' opts0 [], resolve_approve]) rid0)) =
     Err 409 ''conflict'' (Msg ''Request already resolved'')"
  by code_simp

text \<open>
  C8, amended. For a stored request whose status is \<open>expired\<close>: resolve is answered
  with 409 and the error \<open>expired\<close>, which no other status gets; cancel is answered with
  409 and the generic error \<open>conflict\<close>. Neither changes the state or publishes an event.
\<close>

theorem C8_expired_rejections:
  assumes "map_of (requests s) rid = Some r"
    and "status r = ''expired''"
  shows "resolve secret s rid res rsn humanId now =
           (s, Err 409 ''expired'' (Msg ''Request has expired''), []) \<and>
         cancel s rid = (s, Err 409 ''conflict'' (Msg ''Request already resolved''), [])"
  using assms by (simp add: cancel_def resolve_def)

text \<open>The amended C8 at a request that expired by its timer.\<close>

theorem C8_expired_rejections_witness:
  "resolve dev_secret (exec dev_secret [create_decide ''pause'' opts0 [], Fire 0 2000 2000]) rid0
       (JStr ''Approve'') JUndefined ''dev-human-token'' 5000 =
     (exec dev_secret [create_decide ''pause'' opts0 [], Fire 0 2000 2000],
      Err 409 ''expired'' (Msg ''Request has expired''), []) \<and>
   cancel (exec dev_secret [create_decide ''pause'' opts0 [], Fire 0 2000 2000]) rid0 =
     (exec dev_secret [create_decide ''pause'' opts0 [], Fire 0 2000 2000],
      Err 409 ''conflict'' (Msg ''Request already resolved''), [])"
proof -
  let ?r = "(decide_request ''pause'' opts0 [])\<lparr>status := ''expired''\<rparr>"
  have h: "map_of (requests (exec dev_secret [create_decide ''pause'' opts0 [], Fire 0 2000 2000]))
             rid0 = Some ?r"
    by code_simp
  have e: "status ?r = ''expired''"
    by simp
  from C8_expired_rejections [OF h e, of dev_secret "JStr ''Approve''" JUndefined
      "''dev-human-token''" 5000]
  show ?thesis by simp
qed

section \<open>The inbox\<close>

text \<open>
  C10. For an inbox query with an explicit status \<open>st\<close>, the requests returned are
  exactly the stored requests whose status is \<open>st\<close> or \<open>assigned\<close> and that pass the
  priority and action filters that are given, each returned once; \<open>total\<close> is their
  number, and \<open>unresolved\<close> is the number of returned requests whose status is
  \<open>pending\<close>.
\<close>

theorem C10_inbox_filter:
  assumes "q_status q = Some st"
  shows "\<exists>rs. inbox s q =
                Inbox rs (length rs) (length (filter (\<lambda>r. status r = ''pending'') rs)) \<and>
              set rs = {r \<in> snd ` set (requests s). inbox_selects st q r} \<and>
              length rs = length (filter (inbox_selects st q) (map snd (requests s)))"
proof -
  let ?rs = "sort_by inbox_compare (filter (inbox_selects st q) (map snd (requests s)))"
  have sel: "filter (inbox_selects st q) xs =
      (let r0 = filter (\<lambda>r. status r = st \<or> status r = ''assigned'') xs;
           r1 = (if given (q_priority q)
                 then filter (\<lambda>r. priority r = the (q_priority q)) r0 else r0)
       in (if given (q_action q) then filter (\<lambda>r. action r = the (q_action q)) r1 else r1))"
    for xs
    by (induction xs) (auto simp: inbox_selects_def Let_def)
  have "inbox s q = Inbox ?rs (length ?rs) (length (filter (\<lambda>r. status r = ''pending'') ?rs))"
    using assms by (simp add: inbox_def sel Let_def or_default_def)
  moreover have "set ?rs = {r \<in> snd ` set (requests s). inbox_selects st q r}"
    by (auto simp: set_sort_by)
  moreover have "length ?rs = length (filter (inbox_selects st q) (map snd (requests s)))"
    by (simp add: length_sort_by)
  ultimately show ?thesis by blast
qed

text \<open>
  C10 at a store with a pending, an assigned and two expired requests, asked for the
  expired ones of priority \<open>high\<close>: the assigned request comes along.
\<close>

theorem C10_inbox_filter_witness:
  "q_status expired_high = Some ''expired'' \<and>
   (\<exists>rs. inbox inbox_store expired_high =
            Inbox rs (length rs) (length (filter (\<lambda>r. status r = ''pending'') rs)) \<and>
          set rs = {r \<in> snd ` set (requests inbox_store). inbox_selects ''expired'' expired_high r} \<and>
          length rs =
            length (filter (inbox_selects ''expired'' expired_high) (map snd (requests inbox_store))))"
proof -
  have h: "q_status expired_high = Some ''expired''"
    by (simp add: expired_high_def)
  from h C10_inbox_filter [OF h, of inbox_store] show ?thesis
    by (rule conjI)
qed

lemma inbox_expired_high:
  "inbox inbox_store expired_high =
     Inbox [stored ''hxp_4'' ''expired'' ''high'' 4000, stored ''hxp_2'' ''assigned'' ''high'' 2000]
       2 0"
  by code_simp


end
